theory Spec2Isabelle
  imports Main "HOL-Library.Word" "HOL-Library.AList" "HOL-Library.Sublist"
begin

section \<open>Strings\<close>

text \<open>
  A JavaScript string is a sequence of UTF-16 code units; \<open>length\<close> counts code units,
  as \<^verbatim>\<open>String.prototype.length\<close> does.
\<close>

type_synonym code_unit = "16 word"
type_synonym jsstring = "code_unit list"

definition lit :: "string \<Rightarrow> jsstring" where
  "lit s = map of_char s"

text \<open>
  \<^verbatim>\<open>String.prototype.trim\<close> removes the code units of the ECMAScript productions
  WhiteSpace and LineTerminator from both ends.
\<close>

definition isWhiteSpace :: "code_unit \<Rightarrow> bool" where
  "isWhiteSpace c \<longleftrightarrow>
     c = 0x0009 \<or> c = 0x000A \<or> c = 0x000B \<or> c = 0x000C \<or> c = 0x000D \<or> c = 0x0020 \<or>
     c = 0x00A0 \<or> c = 0x1680 \<or> (0x2000 \<le> c \<and> c \<le> 0x200A) \<or> c = 0x2028 \<or>
     c = 0x2029 \<or> c = 0x202F \<or> c = 0x205F \<or> c = 0x3000 \<or> c = 0xFEFF"

definition trim :: "jsstring \<Rightarrow> jsstring" where
  "trim s = rev (dropWhile isWhiteSpace (rev (dropWhile isWhiteSpace s)))"

text \<open>
  The decimal digits of an integer that is not negative, and the string of an integer as
  a template literal writes it.
\<close>

function digits :: "int \<Rightarrow> jsstring" where
  "digits n = (if n < 10 then [of_int (48 + n)] else digits (n div 10) @ [of_int (48 + n mod 10)])"
  by pat_completeness auto
termination
  by (relation "measure nat") auto

declare digits.simps [simp del]

definition int_toString :: "int \<Rightarrow> jsstring" where
  "int_toString i = (if i < 0 then lit ''-'' @ digits (- i) else digits i)"

section \<open>Values\<close>

text \<open>
  The values \<^verbatim>\<open>JSON.parse\<close> returns. A number is kept as the decimal \<open>m * 10 ^ e\<close> its
  literal denotes; the rounding to a double is not modelled. An object is the list of its
  properties in insertion order.
\<close>

datatype jsnum = Decimal int int

datatype json =
    JNull
  | JBool bool
  | JNum jsnum
  | JStr jsstring
  | JArr "json list"
  | JObj "(jsstring \<times> json) list"

fun isArray :: "json \<Rightarrow> bool" where
  "isArray (JArr xs) = True"
| "isArray v = False"

text \<open>
  What a property of a message object holds: \<^verbatim>\<open>undefined\<close>, a value that came from JSON
  or a string, or a \<^verbatim>\<open>Date\<close> with its time value in milliseconds (\<open>None\<close> is the
  invalid date, whose time value is NaN).
\<close>

datatype field = Undefined | J json | DateV "int option"

type_synonym message = "(jsstring \<times> field) list"

datatype js_error = SyntaxError | TypeError | QuotaExceededError | Error jsstring

text \<open>Reading a property of an object: \<^verbatim>\<open>undefined\<close> when it is absent.\<close>

definition get_prop :: "message \<Rightarrow> jsstring \<Rightarrow> field" where
  "get_prop m k = (case map_of m k of None \<Rightarrow> Undefined | Some f \<Rightarrow> f)"

text \<open>
  \<^verbatim>\<open>v.k\<close> for a value \<open>v\<close> that came from JSON and one of the names this program reads
  (\<^verbatim>\<open>answer\<close>, \<^verbatim>\<open>source\<close>, \<^verbatim>\<open>timestamp\<close>), none of which is an index, \<^verbatim>\<open>length\<close> or a
  member of a built-in prototype: a TypeError on \<^verbatim>\<open>null\<close>, the own property of an object,
  \<^verbatim>\<open>undefined\<close> otherwise.
\<close>

fun get_member :: "json \<Rightarrow> string \<Rightarrow> js_error + field" where
  "get_member JNull k = Inl TypeError"
| "get_member (JObj ps) k = Inr (case map_of ps (lit k) of None \<Rightarrow> Undefined | Some v \<Rightarrow> J v)"
| "get_member v k = Inr Undefined"

text \<open>
  The own enumerable properties that the spread \<^verbatim>\<open>{...v}\<close> copies: those of an object,
  the indexed elements of an array, the indexed code units of a string, none for
  \<^verbatim>\<open>null\<close>, a boolean or a number.
\<close>

definition indexed :: "field list \<Rightarrow> message" where
  "indexed fs = zip (map (\<lambda>i. digits (int i)) [0 ..< length fs]) fs"

fun own_props :: "json \<Rightarrow> message" where
  "own_props (JObj ps) = map (\<lambda>(k, v). (k, J v)) ps"
| "own_props (JArr xs) = indexed (map J xs)"
| "own_props (JStr s) = indexed (map (\<lambda>c. J (JStr [c])) s)"
| "own_props v = []"

section \<open>The platform\<close>

text \<open>
  The built-ins of the browser that the component calls and does not define:
  \<^item> \<open>JSON_parse\<close>: \<^verbatim>\<open>JSON.parse\<close> on a string, \<open>None\<close> where it throws a SyntaxError;
  \<^item> \<open>JSON_text\<close>: the text \<^verbatim>\<open>JSON.stringify\<close> writes for a JSON value;
  \<^item> \<open>Date_toISOString\<close>: \<^verbatim>\<open>Date.prototype.toISOString\<close> of a valid time value;
  \<^item> \<open>new_Date\<close>: the time value of \<^verbatim>\<open>new Date(v)\<close>, or the error it throws when the
    conversion of an object to a primitive value fails.
\<close>

record platform =
  JSON_parse :: "jsstring \<Rightarrow> json option"
  JSON_text :: "json \<Rightarrow> jsstring"
  Date_toISOString :: "int \<Rightarrow> jsstring"
  new_Date :: "field \<Rightarrow> js_error + int option"

text \<open>
  \<^verbatim>\<open>JSON.stringify\<close> of an array of message objects: a property holding \<^verbatim>\<open>undefined\<close> is
  left out, a \<^verbatim>\<open>Date\<close> is replaced by its \<^verbatim>\<open>toJSON()\<close>, which is the ISO string of a
  valid date and \<^verbatim>\<open>null\<close> of an invalid one.
\<close>

fun field_toJSON :: "platform \<Rightarrow> field \<Rightarrow> json option" where
  "field_toJSON P Undefined = None"
| "field_toJSON P (J v) = Some v"
| "field_toJSON P (DateV None) = Some JNull"
| "field_toJSON P (DateV (Some t)) = Some (JStr (Date_toISOString P t))"

definition message_toJSON :: "platform \<Rightarrow> message \<Rightarrow> json" where
  "message_toJSON P m =
     JObj (List.map_filter (\<lambda>(k, f). map_option (Pair k) (field_toJSON P f)) m)"

definition JSON_stringify :: "platform \<Rightarrow> message list \<Rightarrow> jsstring" where
  "JSON_stringify P ms = JSON_text P (JArr (map (message_toJSON P) ms))"

section \<open>Durable storage\<close>

text \<open>
  \<^verbatim>\<open>localStorage\<close>: the stored items and the quota, counted in code units of keys and
  values. \<^verbatim>\<open>setItem\<close> throws when the store would exceed the quota.
\<close>

record localStorage =
  items :: "(jsstring \<times> jsstring) list"
  quota :: nat

definition used :: "(jsstring \<times> jsstring) list \<Rightarrow> nat" where
  "used kvs = sum_list (map (\<lambda>(k, v). length k + length v) kvs)"

definition getItem :: "localStorage \<Rightarrow> jsstring \<Rightarrow> jsstring option" where
  "getItem ls k = map_of (items ls) k"

definition setItem :: "localStorage \<Rightarrow> jsstring \<Rightarrow> jsstring \<Rightarrow> js_error + localStorage" where
  "setItem ls k v =
     (let kvs = AList.update k v (items ls)
      in if used kvs \<le> quota ls then Inr (ls\<lparr>items := kvs\<rparr>) else Inl QuotaExceededError)"

definition removeItem :: "localStorage \<Rightarrow> jsstring \<Rightarrow> localStorage" where
  "removeItem ls k = ls\<lparr>items := AList.delete k (items ls)\<rparr>"

section \<open>chat-ui.tsx: the helper functions\<close>

definition STORAGE_KEY :: jsstring where
  "STORAGE_KEY = lit ''threecoders-chat-history''"

text \<open>
  \<^verbatim>\<open>generateId\<close> reads the clock and the random generator; \<open>now\<close> is \<^verbatim>\<open>Date.now()\<close> and
  \<open>rnd\<close> is \<^verbatim>\<open>Math.random().toString(36).substring(2, 9)\<close>.
\<close>

definition generateId :: "int \<Rightarrow> jsstring \<Rightarrow> jsstring" where
  "generateId now rnd = int_toString now @ lit ''-'' @ rnd"

text \<open>
  The callback of \<^verbatim>\<open>parsed.map\<close>: \<^verbatim>\<open>{...msg, timestamp: new Date(msg.timestamp)}\<close>.
\<close>

definition revive :: "platform \<Rightarrow> json \<Rightarrow> js_error + message" where
  "revive P msg =
     (case get_member msg ''timestamp'' of
        Inl e \<Rightarrow> Inl e
      | Inr ts \<Rightarrow>
          (case new_Date P ts of
             Inl e \<Rightarrow> Inl e
           | Inr d \<Rightarrow> Inr (AList.update (lit ''timestamp'') (DateV d) (own_props msg))))"

fun map_revive :: "platform \<Rightarrow> json list \<Rightarrow> js_error + message list" where
  "map_revive P [] = Inr []"
| "map_revive P (x # xs) =
     (case revive P x of
        Inl e \<Rightarrow> Inl e
      | Inr m \<Rightarrow> (case map_revive P xs of Inl e \<Rightarrow> Inl e | Inr ms \<Rightarrow> Inr (m # ms)))"

text \<open>
  \<^verbatim>\<open>parsed.map(...)\<close>: only an array has a callable \<^verbatim>\<open>map\<close>. On \<^verbatim>\<open>null\<close> the property
  access throws; on every other value \<^verbatim>\<open>parsed.map\<close> is \<^verbatim>\<open>undefined\<close> or, for an object
  with a property of that name, a value that came from JSON, and calling it throws.
\<close>

fun parsed_map :: "platform \<Rightarrow> json \<Rightarrow> js_error + message list" where
  "parsed_map P (JArr xs) = map_revive P xs"
| "parsed_map P v = Inl TypeError"

text \<open>The body of the \<^verbatim>\<open>try\<close> block of \<^verbatim>\<open>loadMessagesFromStorage\<close>.\<close>

definition load_try :: "platform \<Rightarrow> localStorage \<Rightarrow> js_error + message list" where
  "load_try P ls =
     (case getItem ls STORAGE_KEY of
        None \<Rightarrow> Inr []
      | Some stored \<Rightarrow>
          if stored = [] then Inr []
          else (case JSON_parse P stored of
                  None \<Rightarrow> Inl SyntaxError
                | Some parsed \<Rightarrow> parsed_map P parsed))"

text \<open>
  \<open>window\<close> is \<open>None\<close> where \<^verbatim>\<open>typeof window === "undefined"\<close> (rendering on the server).
\<close>

definition loadMessagesFromStorage :: "platform \<Rightarrow> localStorage option \<Rightarrow> message list" where
  "loadMessagesFromStorage P window =
     (case window of
        None \<Rightarrow> []
      | Some ls \<Rightarrow> (case load_try P ls of Inl e \<Rightarrow> [] | Inr ms \<Rightarrow> ms))"

definition saveMessagesToStorage ::
    "platform \<Rightarrow> localStorage option \<Rightarrow> message list \<Rightarrow> localStorage option" where
  "saveMessagesToStorage P window ms =
     (case window of
        None \<Rightarrow> None
      | Some ls \<Rightarrow>
          (case setItem ls STORAGE_KEY (JSON_stringify P ms) of
             Inl e \<Rightarrow> Some ls
           | Inr ls' \<Rightarrow> Some ls'))"

text \<open>
  A message object as \<^verbatim>\<open>sendMessage\<close> builds it: its property names are distinct, its
  \<^verbatim>\<open>timestamp\<close> is a valid \<^verbatim>\<open>Date\<close>, and no other property is a \<^verbatim>\<open>Date\<close>.
  \<open>defined_props\<close> are the properties that do not hold \<^verbatim>\<open>undefined\<close>.
\<close>

fun is_Date :: "field \<Rightarrow> bool" where
  "is_Date (DateV d) = True"
| "is_Date f = False"

definition storable :: "message \<Rightarrow> bool" where
  "storable m \<longleftrightarrow>
     distinct (map fst m) \<and>
     (case map_of m (lit ''timestamp'') of Some (DateV (Some t)) \<Rightarrow> True | _ \<Rightarrow> False) \<and>
     list_all (\<lambda>(k, f). k = lit ''timestamp'' \<or> \<not> is_Date f) m"



section \<open>chat-ui.tsx: the component\<close>

text \<open>
  The state of \<^verbatim>\<open>ChatUI\<close> (its four \<^verbatim>\<open>useState\<close> cells) and the \<^verbatim>\<open>localStorage\<close> of the
  page it runs in.
\<close>

record state =
  messages :: "message list"
  input :: jsstring
  isLoading :: bool
  isHydrated :: bool
  storage :: localStorage

text \<open>
  What the creation of one message reads from the environment: \<^verbatim>\<open>Date.now()\<close> and the
  random suffix inside \<^verbatim>\<open>generateId()\<close>, and the clock of \<^verbatim>\<open>new Date()\<close>.
\<close>

record reading =
  now :: int
  rnd :: jsstring
  time :: int

definition userMsg :: "reading \<Rightarrow> jsstring \<Rightarrow> message" where
  "userMsg r userMessage =
     [(lit ''id'', J (JStr (generateId (now r) (rnd r)))),
      (lit ''role'', J (JStr (lit ''user''))),
      (lit ''content'', J (JStr (trim userMessage))),
      (lit ''timestamp'', DateV (Some (time r)))]"

definition botMsg :: "reading \<Rightarrow> field \<Rightarrow> field \<Rightarrow> message" where
  "botMsg r answer source =
     [(lit ''id'', J (JStr (generateId (now r) (rnd r)))),
      (lit ''role'', J (JStr (lit ''bot''))),
      (lit ''content'', answer),
      (lit ''source'', source),
      (lit ''timestamp'', DateV (Some (time r)))]"

definition apology :: jsstring where
  "apology = lit ''Sorry, I encountered an error. Please try again.''"

definition errorMsg :: "reading \<Rightarrow> message" where
  "errorMsg r =
     [(lit ''id'', J (JStr (generateId (now r) (rnd r)))),
      (lit ''role'', J (JStr (lit ''bot''))),
      (lit ''content'', J (JStr apology)),
      (lit ''timestamp'', DateV (Some (time r)))]"

text \<open>The request \<^verbatim>\<open>fetch\<close> is called with, and how the call settles.\<close>

record request =
  url :: jsstring
  http_method :: jsstring
  headers :: "(jsstring \<times> jsstring) list"
  body :: jsstring

datatype fetch_outcome =
    Rejected
  | Response nat jsstring

definition ok :: "nat \<Rightarrow> bool" where
  "ok status \<longleftrightarrow> 200 \<le> status \<and> status \<le> 299"

text \<open>
  \<^verbatim>\<open>sendMessage\<close> up to its \<^verbatim>\<open>await fetch(...)\<close>: the guard, the user message, the three state
  updates and the request. \<open>None\<close> is the early \<^verbatim>\<open>return\<close>, with no request issued.
\<close>

definition sendMessage_begin ::
    "platform \<Rightarrow> jsstring \<Rightarrow> state \<Rightarrow> jsstring \<Rightarrow> reading \<Rightarrow> state \<times> request option" where
  "sendMessage_begin P apiUrl st userMessage r =
     (if trim userMessage = [] \<or> isLoading st then (st, None)
      else
        (st\<lparr>messages := messages st @ [userMsg r userMessage], input := [], isLoading := True\<rparr>,
         Some \<lparr>url = apiUrl, http_method = lit ''POST'',
               headers = [(lit ''Content-Type'', lit ''application/json'')],
               body = JSON_text P (JObj [(lit ''query'', JStr (trim userMessage))])\<rparr>))"

text \<open>
  The rest of the \<^verbatim>\<open>try\<close> block, once the \<^verbatim>\<open>fetch\<close> has settled: it throws, or it builds
  the message of the assistant.
\<close>

definition response_try :: "platform \<Rightarrow> fetch_outcome \<Rightarrow> reading \<Rightarrow> js_error + message" where
  "response_try P outcome r =
     (case outcome of
        Rejected \<Rightarrow> Inl TypeError
      | Response status text \<Rightarrow>
          if \<not> ok status then Inl (Error (lit ''Failed to get response''))
          else (case JSON_parse P text of
                  None \<Rightarrow> Inl SyntaxError
                | Some data \<Rightarrow>
                    (case get_member data ''answer'' of
                       Inl e \<Rightarrow> Inl e
                     | Inr answer \<Rightarrow>
                         (case get_member data ''source'' of
                            Inl e \<Rightarrow> Inl e
                          | Inr source \<Rightarrow> Inr (botMsg r answer source)))))"

text \<open>
  \<^verbatim>\<open>sendMessage\<close> from the settling of the \<^verbatim>\<open>fetch\<close> on: \<^verbatim>\<open>try\<close>, \<^verbatim>\<open>catch\<close>, \<^verbatim>\<open>finally\<close>.
  \<open>r\<close> is read by the \<^verbatim>\<open>try\<close> block and \<open>r'\<close> by the \<^verbatim>\<open>catch\<close> block.
\<close>

definition sendMessage_settle ::
    "platform \<Rightarrow> state \<Rightarrow> fetch_outcome \<Rightarrow> reading \<Rightarrow> reading \<Rightarrow> state" where
  "sendMessage_settle P st outcome r r' =
     (case response_try P outcome r of
        Inr m \<Rightarrow> st\<lparr>messages := messages st @ [m], isLoading := False\<rparr>
      | Inl e \<Rightarrow> st\<lparr>messages := messages st @ [errorMsg r'], isLoading := False\<rparr>)"

definition clearHistory :: "state \<Rightarrow> state" where
  "clearHistory st = st\<lparr>messages := [], storage := removeItem (storage st) STORAGE_KEY\<rparr>"

text \<open>The two effects: hydration on mount, and persistence after a change of the messages.\<close>

definition hydrate_effect :: "platform \<Rightarrow> state \<Rightarrow> state" where
  "hydrate_effect P st =
     st\<lparr>messages := loadMessagesFromStorage P (Some (storage st)), isHydrated := True\<rparr>"

definition persist_effect :: "platform \<Rightarrow> state \<Rightarrow> state" where
  "persist_effect P st =
     (if isHydrated st \<and> length (messages st) > 0
      then (case saveMessagesToStorage P (Some (storage st)) (messages st) of
              None \<Rightarrow> st
            | Some ls \<Rightarrow> st\<lparr>storage := ls\<rparr>)
      else st)"

text \<open>The state of the first render.\<close>

definition initial :: "localStorage \<Rightarrow> state" where
  "initial ls = \<lparr>messages = [], input = [], isLoading = False, isHydrated = False, storage = ls\<rparr>"

text \<open>
  The whole of \<^verbatim>\<open>sendMessage\<close>, when nothing else happens between the call of \<^verbatim>\<open>fetch\<close> and
  its settling.
\<close>

definition sendMessage ::
    "platform \<Rightarrow> jsstring \<Rightarrow> state \<Rightarrow> jsstring \<Rightarrow> reading \<Rightarrow> fetch_outcome \<Rightarrow> reading \<Rightarrow> reading \<Rightarrow> state"
where
  "sendMessage P apiUrl st userMessage r0 outcome r r' =
     (case sendMessage_begin P apiUrl st userMessage r0 of
        (st', None) \<Rightarrow> st'
      | (st', Some req) \<Rightarrow> sendMessage_settle P st' outcome r r')"

text \<open>
  What happens to the mounted component: a text is submitted (by the form, the Enter key
  or a suggestion), a \<^verbatim>\<open>fetch\<close> settles, the history is cleared, the input is edited. A
  change of the messages is followed by the persistence effect.
\<close>

datatype event =
    Submit jsstring reading
  | Settle fetch_outcome reading reading
  | Clear
  | Edit jsstring

fun step :: "platform \<Rightarrow> jsstring \<Rightarrow> state \<Rightarrow> event \<Rightarrow> state" where
  "step P apiUrl st (Submit userMessage r) =
     (case sendMessage_begin P apiUrl st userMessage r of
        (st', None) \<Rightarrow> st'
      | (st', Some req) \<Rightarrow> persist_effect P st')"
| "step P apiUrl st (Settle outcome r r') = persist_effect P (sendMessage_settle P st outcome r r')"
| "step P apiUrl st Clear = persist_effect P (clearHistory st)"
| "step P apiUrl st (Edit s) = st\<lparr>input := s\<rparr>"

fun run :: "platform \<Rightarrow> jsstring \<Rightarrow> state \<Rightarrow> event list \<Rightarrow> state" where
  "run P apiUrl st [] = st"
| "run P apiUrl st (ev # evs) = run P apiUrl (step P apiUrl st ev) evs"

text \<open>
  The messages that an event creates, and the log of all messages created during a
  sequence of events, in the order of their creation.
\<close>

fun created_by :: "platform \<Rightarrow> state \<Rightarrow> event \<Rightarrow> message list" where
  "created_by P st (Submit userMessage r) =
     (if trim userMessage = [] \<or> isLoading st then [] else [userMsg r userMessage])"
| "created_by P st (Settle outcome r r') =
     [case response_try P outcome r of Inr m \<Rightarrow> m | Inl e \<Rightarrow> errorMsg r']"
| "created_by P st Clear = []"
| "created_by P st (Edit s) = []"

fun created :: "platform \<Rightarrow> jsstring \<Rightarrow> state \<Rightarrow> event list \<Rightarrow> message list" where
  "created P apiUrl st [] = []"
| "created P apiUrl st (ev # evs) = created_by P st ev @ created P apiUrl (step P apiUrl st ev) evs"

text \<open>
  The number of requests in flight after a sequence of events, counted from \<open>n\<close>: a
  submission that issues a request adds one, a settling takes one away. \<open>None\<close> marks a
  sequence in which something settles while nothing is in flight.
\<close>

fun in_flight :: "platform \<Rightarrow> jsstring \<Rightarrow> state \<Rightarrow> nat \<Rightarrow> event list \<Rightarrow> nat option" where
  "in_flight P apiUrl st n [] = Some n"
| "in_flight P apiUrl st n (Submit userMessage r # evs) =
     in_flight P apiUrl (step P apiUrl st (Submit userMessage r))
       (case snd (sendMessage_begin P apiUrl st userMessage r) of None \<Rightarrow> n | Some req \<Rightarrow> Suc n) evs"
| "in_flight P apiUrl st n (Settle outcome r r' # evs) =
     (if n = 0 then None
      else in_flight P apiUrl (step P apiUrl st (Settle outcome r r')) (n - 1) evs)"
| "in_flight P apiUrl st n (ev # evs) = in_flight P apiUrl (step P apiUrl st ev) n evs"

text \<open>
  What the component renders: the suggestion buttons of the empty state with their
  \<^verbatim>\<open>onClick\<close>, the message bubbles, the thinking indicator, the clear button, and whether
  the input and the submit button are disabled.
\<close>

datatype action = SendMessage jsstring | ClearHistory

record view =
  suggestions :: "(jsstring \<times> action) list"
  bubbles :: "message list"
  thinking :: bool
  clear_button :: "action option"
  input_disabled :: bool
  submit_disabled :: bool

definition SUGGESTIONS :: "jsstring list" where
  "SUGGESTIONS =
     [lit ''How can you help me?'', lit ''What sources do you use?'',
      lit ''Tell me about ThreeCoders'']"

definition render :: "state \<Rightarrow> view" where
  "render st =
     \<lparr>suggestions =
        (if length (messages st) = 0 \<and> \<not> isLoading st
         then map (\<lambda>suggestion. (suggestion, SendMessage suggestion)) SUGGESTIONS else []),
      bubbles = messages st,
      thinking = isLoading st,
      clear_button = (if length (messages st) > 0 then Some ClearHistory else None),
      input_disabled = isLoading st,
      submit_disabled = (isLoading st \<or> trim (input st) = [])\<rparr>"

text \<open>Running the handler of a button.\<close>

fun perform ::
    "platform \<Rightarrow> jsstring \<Rightarrow> state \<Rightarrow> action \<Rightarrow> reading \<Rightarrow> state \<times> request option" where
  "perform P apiUrl st (SendMessage s) r = sendMessage_begin P apiUrl st s r"
| "perform P apiUrl st ClearHistory r = (clearHistory st, None)"

section \<open>markdown.tsx\<close>

text \<open>
  The children that react-markdown hands to the \<^verbatim>\<open>code\<close> component: text, the elements
  the highlighter made (with their own children), arrays of these, and the empty nodes.
\<close>

datatype node =
    Text jsstring
  | Element jsstring "node list"
  | Array "node list"
  | Boolean bool
  | Null
  | Undefined_node

text \<open>
  \<^verbatim>\<open>String(v)\<close>: an element is a plain object and gives \<^verbatim>\<open>[object Object]\<close>; an array gives
  its elements joined with a comma, where \<^verbatim>\<open>null\<close> and \<^verbatim>\<open>undefined\<close> give the empty string.
\<close>

definition join :: "jsstring \<Rightarrow> jsstring list \<Rightarrow> jsstring" where
  "join sep xs = (case xs of [] \<Rightarrow> [] | x # ys \<Rightarrow> x @ concat (map (\<lambda>y. sep @ y) ys))"

fun String :: "node \<Rightarrow> jsstring"
  and String_element :: "node \<Rightarrow> jsstring"
where
  "String (Text s) = s"
| "String (Element tag cs) = lit ''[object Object]''"
| "String (Array xs) = join (lit '','') (map String_element xs)"
| "String (Boolean b) = (if b then lit ''true'' else lit ''false'')"
| "String Null = lit ''null''"
| "String Undefined_node = lit ''undefined''"
| "String_element Null = []"
| "String_element Undefined_node = []"
| "String_element (Text s) = String (Text s)"
| "String_element (Element tag cs) = String (Element tag cs)"
| "String_element (Array xs) = String (Array xs)"
| "String_element (Boolean b) = String (Boolean b)"

text \<open>
  \<^verbatim>\<open>String(Array.isArray(children) ? children.join("") : children).trim()\<close>
\<close>

definition childString :: "node \<Rightarrow> jsstring" where
  "childString children =
     trim (case children of
             Array xs \<Rightarrow> join [] (map String_element xs)
           | _ \<Rightarrow> String children)"

definition shouldShowCopyButton :: "node \<Rightarrow> bool" where
  "shouldShowCopyButton children \<longleftrightarrow> length (childString children) > 50"

text \<open>
  The text that the rendered block shows, which is what the copy button reads through
  \<^verbatim>\<open>codeRef.current.innerText\<close>: the text nodes below it, in order.
\<close>

fun innerText :: "node \<Rightarrow> jsstring" where
  "innerText (Text s) = s"
| "innerText (Element tag cs) = concat (map innerText cs)"
| "innerText (Array xs) = concat (map innerText xs)"
| "innerText v = []"

text \<open>
  What the \<^verbatim>\<open>code\<close> component of \<^verbatim>\<open>MarkdownMessage\<close> renders: a \<^verbatim>\<open>CopyableCodeBlock\<close> for a
  class name that starts with \<^verbatim>\<open>language-\<close>, a plain \<^verbatim>\<open>code\<close> element otherwise.
\<close>

datatype code_view =
    CopyableCodeBlock bool node
  | InlineCode node

definition isCodeBlock :: "jsstring option \<Rightarrow> bool" where
  "isCodeBlock className =
     (case className of
        None \<Rightarrow> False
      | Some c \<Rightarrow> take (length (lit ''language-'')) c = lit ''language-'')"

definition code :: "jsstring option \<Rightarrow> node \<Rightarrow> code_view" where
  "code className children =
     (if isCodeBlock className then CopyableCodeBlock (shouldShowCopyButton children) children
      else InlineCode children)"

section \<open>A reference browser\<close>

text \<open>
  An executable instance of the platform, on which the component is run at concrete
  inputs.
\<close>

subsection \<open>JSON text\<close>

definition hex_digit :: "int \<Rightarrow> code_unit" where
  "hex_digit n = (if n < 10 then of_int (48 + n) else of_int (87 + n))"

definition hex4 :: "code_unit \<Rightarrow> jsstring" where
  "hex4 c =
     (let n = uint c
      in [hex_digit (n div 4096), hex_digit (n div 256 mod 16), hex_digit (n div 16 mod 16),
          hex_digit (n mod 16)])"

definition is_high :: "code_unit \<Rightarrow> bool" where
  "is_high c \<longleftrightarrow> 0xD800 \<le> c \<and> c \<le> 0xDBFF"

definition is_low :: "code_unit \<Rightarrow> bool" where
  "is_low c \<longleftrightarrow> 0xDC00 \<le> c \<and> c \<le> 0xDFFF"

definition escape_unit :: "code_unit \<Rightarrow> jsstring" where
  "escape_unit c =
     (if c = 0x08 then [0x5C, 0x62] else if c = 0x09 then [0x5C, 0x74]
      else if c = 0x0A then [0x5C, 0x6E] else if c = 0x0C then [0x5C, 0x66]
      else if c = 0x0D then [0x5C, 0x72] else if c = 0x22 then [0x5C, 0x22]
      else if c = 0x5C then [0x5C, 0x5C]
      else if c < 0x20 \<or> is_high c \<or> is_low c then [0x5C, 0x75] @ hex4 c
      else [c])"

fun quote_units :: "jsstring \<Rightarrow> jsstring" where
  "quote_units [] = []"
| "quote_units [c] = escape_unit c"
| "quote_units (c # d # s) =
     (if is_high c \<and> is_low d then c # d # quote_units s else escape_unit c @ quote_units (d # s))"

definition quote :: "jsstring \<Rightarrow> jsstring" where
  "quote s = [0x22] @ quote_units s @ [0x22]"

definition num_text :: "jsnum \<Rightarrow> jsstring" where
  "num_text n =
     (case n of Decimal m e \<Rightarrow>
        if e = 0 then int_toString m else int_toString m @ lit ''e'' @ int_toString e)"

fun json_text :: "json \<Rightarrow> jsstring" where
  "json_text JNull = lit ''null''"
| "json_text (JBool b) = (if b then lit ''true'' else lit ''false'')"
| "json_text (JNum n) = num_text n"
| "json_text (JStr s) = quote s"
| "json_text (JArr xs) = lit ''['' @ join (lit '','') (map json_text xs) @ lit '']''"
| "json_text (JObj ps) =
     lit ''{'' @ join (lit '','') (map (\<lambda>(k, v). quote k @ lit '':'' @ json_text v) ps) @ lit ''}''"


subsection \<open>Parsing JSON text\<close>

definition is_json_ws :: "code_unit \<Rightarrow> bool" where
  "is_json_ws c \<longleftrightarrow> c = 0x09 \<or> c = 0x0A \<or> c = 0x0D \<or> c = 0x20"

definition skip_ws :: "jsstring \<Rightarrow> jsstring" where
  "skip_ws s = dropWhile is_json_ws s"

definition is_digit :: "code_unit \<Rightarrow> bool" where
  "is_digit c \<longleftrightarrow> 0x30 \<le> c \<and> c \<le> 0x39"

definition digits_value :: "jsstring \<Rightarrow> int" where
  "digits_value ds = foldl (\<lambda>a c. 10 * a + (uint c - 48)) 0 ds"

definition hex_value :: "code_unit \<Rightarrow> int option" where
  "hex_value c =
     (if 0x30 \<le> c \<and> c \<le> 0x39 then Some (uint c - 48)
      else if 0x41 \<le> c \<and> c \<le> 0x46 then Some (uint c - 55)
      else if 0x61 \<le> c \<and> c \<le> 0x66 then Some (uint c - 87)
      else None)"

definition unhex4 :: "code_unit \<Rightarrow> code_unit \<Rightarrow> code_unit \<Rightarrow> code_unit \<Rightarrow> code_unit option" where
  "unhex4 a b c d =
     (case (hex_value a, hex_value b, hex_value c, hex_value d) of
        (Some w, Some x, Some y, Some z) \<Rightarrow> Some (of_int (4096 * w + 256 * x + 16 * y + z))
      | _ \<Rightarrow> None)"

definition unescape :: "code_unit \<Rightarrow> code_unit option" where
  "unescape e =
     (if e = 0x22 \<or> e = 0x5C \<or> e = 0x2F then Some e
      else if e = 0x62 then Some 0x08 else if e = 0x66 then Some 0x0C
      else if e = 0x6E then Some 0x0A else if e = 0x72 then Some 0x0D
      else if e = 0x74 then Some 0x09 else None)"

text \<open>The characters of a string literal after its opening quote, up to the closing one.\<close>

fun parse_chars :: "jsstring \<Rightarrow> (jsstring \<times> jsstring) option" where
  "parse_chars [] = None"
| "parse_chars (c # s) =
     (if c = 0x22 then Some ([], s)
      else if c = 0x5C then
        (case s of
           [] \<Rightarrow> None
         | e # s1 \<Rightarrow>
             if e = 0x75 then
               (case s1 of
                  a # b # x # d # s2 \<Rightarrow>
                    (case unhex4 a b x d of
                       None \<Rightarrow> None
                     | Some u \<Rightarrow> map_option (\<lambda>(t, rest). (u # t, rest)) (parse_chars s2))
                | _ \<Rightarrow> None)
             else
               (case unescape e of
                  None \<Rightarrow> None
                | Some u \<Rightarrow> map_option (\<lambda>(t, rest). (u # t, rest)) (parse_chars s1)))
      else if c < 0x20 then None
      else map_option (\<lambda>(t, rest). (c # t, rest)) (parse_chars s))"

text \<open>A number literal: sign, integer part without a leading zero, fraction, exponent.\<close>

definition parse_number :: "jsstring \<Rightarrow> (jsnum \<times> jsstring) option" where
  "parse_number s =
     (let (neg, s1) = (case s of c # t \<Rightarrow> if c = 0x2D then (True, t) else (False, s) | [] \<Rightarrow> (False, s));
          ip = takeWhile is_digit s1; s2 = dropWhile is_digit s1
      in if ip = [] \<or> (length ip > 1 \<and> hd ip = 0x30) then None
         else
           (let (fp, s3, okf) =
                  (case s2 of
                     c # t \<Rightarrow>
                       if c = 0x2E then (takeWhile is_digit t, dropWhile is_digit t, takeWhile is_digit t \<noteq> [])
                       else ([], s2, True)
                   | [] \<Rightarrow> ([], s2, True));
                (ex, s4, oke) =
                  (case s3 of
                     c # t \<Rightarrow>
                       if c = 0x65 \<or> c = 0x45 then
                         (let (eneg, t1) =
                                (case t of
                                   d # u \<Rightarrow> if d = 0x2D then (True, u) else if d = 0x2B then (False, u) else (False, t)
                                 | [] \<Rightarrow> (False, t));
                              ed = takeWhile is_digit t1
                          in ((if eneg then - digits_value ed else digits_value ed),
                              dropWhile is_digit t1, ed \<noteq> []))
                       else (0, s3, True)
                   | [] \<Rightarrow> (0, s3, True));
                m = digits_value (ip @ fp)
            in if okf \<and> oke then Some (Decimal (if neg then - m else m) (ex - int (length fp)), s4)
               else None))"

definition strip_prefix :: "jsstring \<Rightarrow> jsstring \<Rightarrow> jsstring option" where
  "strip_prefix p s = (if take (length p) s = p then Some (drop (length p) s) else None)"

text \<open>
  A value, the elements of an array after \<^verbatim>\<open>[\<close> and the members of an object after \<^verbatim>\<open>{\<close>.
  The first argument bounds the depth of the recursion; the length of the text is enough.
  A repeated name keeps its first position and takes the last value.
\<close>

fun parse_value :: "nat \<Rightarrow> jsstring \<Rightarrow> (json \<times> jsstring) option"
  and parse_elements :: "nat \<Rightarrow> json list \<Rightarrow> jsstring \<Rightarrow> (json \<times> jsstring) option"
  and parse_members :: "nat \<Rightarrow> (jsstring \<times> json) list \<Rightarrow> jsstring \<Rightarrow> (json \<times> jsstring) option"
where
  "parse_value 0 s = None"
| "parse_value (Suc n) s =
     (case skip_ws s of
        [] \<Rightarrow> None
      | c # t \<Rightarrow>
          if c = 0x22 then map_option (\<lambda>(x, rest). (JStr x, rest)) (parse_chars t)
          else if c = 0x5B then
            (case skip_ws t of
               [] \<Rightarrow> None
             | d # u \<Rightarrow> if d = 0x5D then Some (JArr [], u) else parse_elements n [] t)
          else if c = 0x7B then
            (case skip_ws t of
               [] \<Rightarrow> None
             | d # u \<Rightarrow> if d = 0x7D then Some (JObj [], u) else parse_members n [] t)
          else if c = 0x74 then map_option (Pair (JBool True)) (strip_prefix (lit ''true'') (c # t))
          else if c = 0x66 then map_option (Pair (JBool False)) (strip_prefix (lit ''false'') (c # t))
          else if c = 0x6E then map_option (Pair JNull) (strip_prefix (lit ''null'') (c # t))
          else map_option (\<lambda>(x, rest). (JNum x, rest)) (parse_number (c # t)))"
| "parse_elements 0 acc s = None"
| "parse_elements (Suc n) acc s =
     (case parse_value n s of
        None \<Rightarrow> None
      | Some (v, rest) \<Rightarrow>
          (case skip_ws rest of
             [] \<Rightarrow> None
           | c # t \<Rightarrow>
               if c = 0x2C then parse_elements n (acc @ [v]) t
               else if c = 0x5D then Some (JArr (acc @ [v]), t)
               else None))"
| "parse_members 0 acc s = None"
| "parse_members (Suc n) acc s =
     (case skip_ws s of
        [] \<Rightarrow> None
      | q # s1 \<Rightarrow>
          if q \<noteq> 0x22 then None
          else
            (case parse_chars s1 of
               None \<Rightarrow> None
             | Some (k, s2) \<Rightarrow>
                 (case skip_ws s2 of
                    [] \<Rightarrow> None
                  | c # s3 \<Rightarrow>
                      if c \<noteq> 0x3A then None
                      else
                        (case parse_value n s3 of
                           None \<Rightarrow> None
                         | Some (v, rest) \<Rightarrow>
                             (case skip_ws rest of
                                [] \<Rightarrow> None
                              | d # t \<Rightarrow>
                                  if d = 0x2C then parse_members n (AList.update k v acc) t
                                  else if d = 0x7D then Some (JObj (AList.update k v acc), t)
                                  else None)))))"

definition json_parse :: "jsstring \<Rightarrow> json option" where
  "json_parse s =
     (case parse_value (Suc (length s)) s of
        None \<Rightarrow> None
      | Some (v, rest) \<Rightarrow> if skip_ws rest = [] then Some v else None)"


subsection \<open>Dates\<close>

definition msPerDay :: int where
  "msPerDay = 86400000"

text \<open>The civil date of a day number (days since 1970-01-01) and back.\<close>

definition civil_from_days :: "int \<Rightarrow> int \<times> int \<times> int" where
  "civil_from_days z0 =
     (let z = z0 + 719468; era = z div 146097; doe = z - era * 146097;
          yoe = (doe - doe div 1460 + doe div 36524 - doe div 146096) div 365;
          doy = doe - (365 * yoe + yoe div 4 - yoe div 100);
          mp = (5 * doy + 2) div 153;
          d = doy - (153 * mp + 2) div 5 + 1;
          m = (if mp < 10 then mp + 3 else mp - 9);
          y = yoe + era * 400
      in ((if m \<le> 2 then y + 1 else y), m, d))"

definition days_from_civil :: "int \<Rightarrow> int \<Rightarrow> int \<Rightarrow> int" where
  "days_from_civil y0 m d =
     (let y = (if m \<le> 2 then y0 - 1 else y0); era = y div 400; yoe = y - era * 400;
          doy = (153 * (if m > 2 then m - 3 else m + 9) + 2) div 5 + d - 1;
          doe = yoe * 365 + yoe div 4 - yoe div 100 + doy
      in era * 146097 + doe - 719468)"

definition pad :: "nat \<Rightarrow> int \<Rightarrow> jsstring" where
  "pad w n = (let ds = digits n in replicate (w - length ds) 0x30 @ ds)"

definition toISOString :: "int \<Rightarrow> jsstring" where
  "toISOString t =
     (let (y, m, d) = civil_from_days (t div msPerDay); ms = t mod msPerDay
      in (if 0 \<le> y \<and> y \<le> 9999 then pad 4 y
          else (if y < 0 then lit ''-'' else lit ''+'') @ pad 6 \<bar>y\<bar>)
         @ lit ''-'' @ pad 2 m @ lit ''-'' @ pad 2 d @ lit ''T'' @ pad 2 (ms div 3600000)
         @ lit '':'' @ pad 2 (ms div 60000 mod 60) @ lit '':'' @ pad 2 (ms div 1000 mod 60)
         @ lit ''.'' @ pad 3 (ms mod 1000) @ lit ''Z'')"

definition timeClip :: "int \<Rightarrow> int option" where
  "timeClip t = (if \<bar>t\<bar> \<le> 8640000000000000 then Some t else None)"

text \<open>
  The date-time form that \<^verbatim>\<open>toISOString\<close> writes, with a four-digit year or a signed
  six-digit one; every other string gives the invalid date.
\<close>

definition number_at :: "jsstring \<Rightarrow> nat \<Rightarrow> nat \<Rightarrow> int option" where
  "number_at s i n =
     (let ds = take n (drop i s)
      in if length ds = n \<and> list_all is_digit ds then Some (digits_value ds) else None)"

definition days_in_month :: "int \<Rightarrow> int \<Rightarrow> int" where
  "days_in_month y m =
     (if m = 2 then (if y mod 4 = 0 \<and> (y mod 100 \<noteq> 0 \<or> y mod 400 = 0) then 29 else 28)
      else if m = 4 \<or> m = 6 \<or> m = 9 \<or> m = 11 then 30 else 31)"

definition parse_date_time :: "int option \<Rightarrow> jsstring \<Rightarrow> int option" where
  "parse_date_time year s =
     (case (year, number_at s 1 2, number_at s 4 2, number_at s 7 2, number_at s 10 2,
            number_at s 13 2, number_at s 16 3) of
        (Some y, Some m, Some d, Some h, Some mi, Some sec, Some ms) \<Rightarrow>
          if length s = 20 \<and> s ! 0 = 0x2D \<and> s ! 3 = 0x2D \<and> s ! 6 = 0x54 \<and> s ! 9 = 0x3A \<and>
             s ! 12 = 0x3A \<and> s ! 15 = 0x2E \<and> s ! 19 = 0x5A \<and>
             1 \<le> m \<and> m \<le> 12 \<and> 1 \<le> d \<and> d \<le> days_in_month y m \<and> h \<le> 23 \<and> mi \<le> 59 \<and> sec \<le> 59
          then timeClip (days_from_civil y m d * msPerDay + h * 3600000 + mi * 60000 + sec * 1000 + ms)
          else None
      | _ \<Rightarrow> None)"

definition Date_parse :: "jsstring \<Rightarrow> int option" where
  "Date_parse s =
     (case s of
        [] \<Rightarrow> None
      | c # t \<Rightarrow>
          if c = 0x2B then parse_date_time (number_at t 0 6) (drop 6 t)
          else if c = 0x2D then
            (case number_at t 0 6 of
               None \<Rightarrow> None
             | Some y \<Rightarrow> if y = 0 then None else parse_date_time (Some (- y)) (drop 6 t))
          else parse_date_time (number_at s 0 4) (drop 4 s))"

text \<open>
  \<^verbatim>\<open>new Date(v)\<close>. An object that came from JSON and has an own \<^verbatim>\<open>toString\<close> property has no
  callable conversion to a primitive value, and the constructor throws a TypeError; every
  other object and every array gives the invalid date here.
\<close>

fun Date_of :: "field \<Rightarrow> js_error + int option" where
  "Date_of Undefined = Inr None"
| "Date_of (DateV d) = Inr d"
| "Date_of (J JNull) = Inr (Some 0)"
| "Date_of (J (JBool b)) = Inr (Some (if b then 1 else 0))"
| "Date_of (J (JNum (Decimal m e))) =
     Inr (timeClip (if e \<ge> 0 then m * 10 ^ nat e else sgn m * (\<bar>m\<bar> div 10 ^ nat (- e))))"
| "Date_of (J (JStr s)) = Inr (Date_parse s)"
| "Date_of (J (JArr xs)) = Inr None"
| "Date_of (J (JObj ps)) =
     (case map_of ps (lit ''toString'') of None \<Rightarrow> Inr None | Some v \<Rightarrow> Inl TypeError)"

definition browser :: platform where
  "browser = \<lparr>JSON_parse = json_parse, JSON_text = json_text, Date_toISOString = toISOString,
              new_Date = Date_of\<rparr>"


text \<open>A \<^verbatim>\<open>localStorage\<close> with the given items and a quota of five mebi code units.\<close>

definition store :: "(jsstring \<times> jsstring) list \<Rightarrow> localStorage" where
  "store kvs = \<lparr>items = kvs, quota = 5242880\<rparr>"

text \<open>Concrete inputs: two readings of the environment, an endpoint, response bodies.\<close>

definition reading0 :: reading where
  "reading0 = \<lparr>now = 1793588400123, rnd = lit ''k3x9q2a'', time = 1793588400123\<rparr>"

definition reading1 :: reading where
  "reading1 = \<lparr>now = 1793588401500, rnd = lit ''0b7zt4m'', time = 1793588401501\<rparr>"

definition endpoint :: jsstring where
  "endpoint = lit ''https://api.example.com/ask''"

definition hi_WEB :: jsstring where
  "hi_WEB = lit ''{\"answer\":\"hi\",\"source\":\"WEB\"}''"

definition pending :: state where
  "pending = fst (sendMessage_begin browser endpoint (initial (store [])) (lit ''hello'') reading0)"

definition source_only :: jsstring where
  "source_only = lit ''{\"source\":\"WEB\"}''"



text \<open>
  Children of a code block: the tokens of a highlighted line, texts of 60 and 40 code
  units, and a line of 60 code units wrapped in one element.
\<close>

definition highlighted :: node where
  "highlighted =
     Array [Element (lit ''span'') [Text (lit ''const'')], Text (lit '' x ''),
            Element (lit ''span'') [Text (lit ''='')], Text (lit '' ''),
            Element (lit ''span'') [Text (lit ''1'')], Element (lit ''span'') [Text (lit '';'')]]"

definition sixty :: jsstring where
  "sixty = lit ''SELECT id, role, content FROM messages ORDER BY timestamp;;;''"

definition forty :: jsstring where
  "forty = lit ''SELECT id, role FROM messages LIMIT 10;;''"

definition code_line :: node where
  "code_line = Element (lit ''span'') [Text sixty]"

section \<open>Properties of the session store\<close>

lemma get_prop_userMsg:
  "get_prop (userMsg r t) (lit ''role'') = J (JStr (lit ''user''))"
  "get_prop (userMsg r t) (lit ''content'') = J (JStr (trim t))"
  "get_prop (userMsg r t) (lit ''source'') = Undefined"
  "get_prop (userMsg r t) (lit ''timestamp'') = DateV (Some (time r))"
  by (simp_all add: get_prop_def userMsg_def lit_def)

lemma get_prop_botMsg:
  "get_prop (botMsg r a s) (lit ''role'') = J (JStr (lit ''bot''))"
  "get_prop (botMsg r a s) (lit ''content'') = a"
  "get_prop (botMsg r a s) (lit ''source'') = s"
  "get_prop (botMsg r a s) (lit ''timestamp'') = DateV (Some (time r))"
  by (simp_all add: get_prop_def botMsg_def lit_def)

lemma get_prop_errorMsg:
  "get_prop (errorMsg r) (lit ''role'') = J (JStr (lit ''bot''))"
  "get_prop (errorMsg r) (lit ''content'') = J (JStr apology)"
  "get_prop (errorMsg r) (lit ''source'') = Undefined"
  "get_prop (errorMsg r) (lit ''timestamp'') = DateV (Some (time r))"
  by (simp_all add: get_prop_def errorMsg_def lit_def)

lemma getItem_store [simp]:
  "getItem (store []) k = None" "getItem (store [(k, v)]) k = Some v"
  by (simp_all add: getItem_def store_def)

text \<open>
  C5: whatever the durable storage holds under the key of the history (nothing, the empty
  string, or a string on which \<^verbatim>\<open>JSON.parse\<close> throws), \<^verbatim>\<open>loadMessagesFromStorage\<close> returns
  the empty sequence. It returns a list in every case: the exception is caught inside.
\<close>

theorem load_missing_empty_unparseable:
  assumes "case getItem ls STORAGE_KEY of
             None \<Rightarrow> True
           | Some stored \<Rightarrow> stored = [] \<or> JSON_parse P stored = None"
  shows "loadMessagesFromStorage P (Some ls) = []"
  using assms by (auto simp: loadMessagesFromStorage_def load_try_def split: option.splits)

theorem load_missing_empty_unparseable_witness:
  "loadMessagesFromStorage browser (Some (store [])) = [] \<and>
   loadMessagesFromStorage browser (Some (store [(STORAGE_KEY, [])])) = [] \<and>
   loadMessagesFromStorage browser (Some (store [(STORAGE_KEY, lit ''[{\"id\": 12, '')])) = []"
proof -
  have "JSON_parse browser (lit ''[{\"id\": 12, '') = None"
    by code_simp
  then show ?thesis
    using load_missing_empty_unparseable [where ls = "store []" and P = browser]
      load_missing_empty_unparseable [where ls = "store [(STORAGE_KEY, [])]" and P = browser]
      load_missing_empty_unparseable
        [where ls = "store [(STORAGE_KEY, lit ''[{\"id\": 12, '')]" and P = browser]
    by simp
qed

text \<open>
  C10: when the stored string parses as JSON to a value that is not an array (a number, a
  string, an object, \<^verbatim>\<open>null\<close>, a boolean), \<^verbatim>\<open>loadMessagesFromStorage\<close> returns the empty
  sequence: \<^verbatim>\<open>parsed.map(...)\<close> throws inside the \<^verbatim>\<open>try\<close> block.
\<close>

theorem load_not_an_array:
  assumes "getItem ls STORAGE_KEY = Some stored" and "JSON_parse P stored = Some parsed"
    and "\<not> isArray parsed"
  shows "loadMessagesFromStorage P (Some ls) = []"
  using assms by (cases parsed) (simp_all add: loadMessagesFromStorage_def load_try_def)

theorem load_not_an_array_witness:
  "loadMessagesFromStorage browser (Some (store [(STORAGE_KEY, lit ''42'')])) = [] \<and>
   loadMessagesFromStorage browser (Some (store [(STORAGE_KEY, lit ''\"abc\"'')])) = [] \<and>
   loadMessagesFromStorage browser (Some (store [(STORAGE_KEY, lit ''{\"map\":[]}'')])) = [] \<and>
   loadMessagesFromStorage browser (Some (store [(STORAGE_KEY, lit ''null'')])) = []"
proof -
  have 1: "JSON_parse browser (lit ''42'') = Some (JNum (Decimal 42 0))"
    by code_simp
  have 2: "JSON_parse browser (lit ''\"abc\"'') = Some (JStr (lit ''abc''))"
    by code_simp
  have 3: "JSON_parse browser (lit ''{\"map\":[]}'') = Some (JObj [(lit ''map'', JArr [])])"
    by code_simp
  have 4: "JSON_parse browser (lit ''null'') = Some JNull"
    by code_simp
  show ?thesis
    using load_not_an_array [OF _ 1, where ls = "store [(STORAGE_KEY, lit ''42'')]"]
      load_not_an_array [OF _ 2, where ls = "store [(STORAGE_KEY, lit ''\"abc\"'')]"]
      load_not_an_array [OF _ 3, where ls = "store [(STORAGE_KEY, lit ''{\"map\":[]}'')]"]
      load_not_an_array [OF _ 4, where ls = "store [(STORAGE_KEY, lit ''null'')]"]
    by simp
qed

lemma getItem_removeItem: "getItem (removeItem ls k) k = None"
  by (simp add: getItem_def removeItem_def AList.delete_conv')

text \<open>
  C6: \<^verbatim>\<open>clearHistory\<close> empties the messages and removes the entry of the storage; the
  persistence effect that follows writes nothing, and a load from that storage returns
  the empty sequence.
\<close>

theorem clearHistory_then_load:
  "messages (clearHistory st) = [] \<and>
   getItem (storage (clearHistory st)) STORAGE_KEY = None \<and>
   persist_effect P (clearHistory st) = clearHistory st \<and>
   loadMessagesFromStorage P (Some (storage (clearHistory st))) = []"
  by (simp add: clearHistory_def persist_effect_def getItem_removeItem
      loadMessagesFromStorage_def load_try_def)








lemma storable_created:
  "storable (userMsg r userMessage)"
  "\<not> is_Date answer \<Longrightarrow> \<not> is_Date source \<Longrightarrow> storable (botMsg r answer source)"
  "storable (errorMsg r)"
  by (simp_all add: storable_def userMsg_def botMsg_def errorMsg_def lit_def)





section \<open>Properties of the request lifecycle\<close>

lemma dropWhile_all: "(\<forall>x\<in>set (dropWhile P xs). P x) \<longleftrightarrow> (\<forall>x\<in>set xs. P x)"
proof
  assume a: "\<forall>x\<in>set (dropWhile P xs). P x"
  have "dropWhile P xs = []"
  proof (rule ccontr)
    assume "dropWhile P xs \<noteq> []"
    then have "\<not> P (hd (dropWhile P xs))" "hd (dropWhile P xs) \<in> set (dropWhile P xs)"
      by (simp_all add: hd_dropWhile)
    with a show False by blast
  qed
  then show "\<forall>x\<in>set xs. P x" by (simp add: dropWhile_eq_Nil_conv)
next
  assume "\<forall>x\<in>set xs. P x"
  then show "\<forall>x\<in>set (dropWhile P xs). P x"
    using set_dropWhileD by fastforce
qed

lemma trim_Nil_iff: "trim s = [] \<longleftrightarrow> list_all isWhiteSpace s"
  by (simp add: trim_def dropWhile_eq_Nil_conv dropWhile_all list_all_iff)

text \<open>
  C2: when the text is empty or consists of white space only, or when a request is in
  flight (\<open>isLoading\<close>), \<^verbatim>\<open>sendMessage\<close> returns at once: the state (messages, input,
  loading flag, storage) is unchanged and no request is issued.
\<close>

theorem sendMessage_noop:
  assumes "list_all isWhiteSpace userMessage \<or> isLoading st"
  shows "sendMessage_begin P apiUrl st userMessage r = (st, None)"
  using assms by (auto simp: sendMessage_begin_def trim_Nil_iff)

theorem sendMessage_noop_witness:
  "sendMessage_begin browser endpoint (initial (store [])) [] reading0 = (initial (store []), None) \<and>
   sendMessage_begin browser endpoint (initial (store [])) (lit ''   '') reading0 =
     (initial (store []), None) \<and>
   sendMessage_begin browser endpoint ((initial (store []))\<lparr>isLoading := True\<rparr>) (lit ''hello'') reading0 =
     ((initial (store []))\<lparr>isLoading := True\<rparr>, None)"
proof -
  have "list_all isWhiteSpace (lit ''   '')"
    by code_simp
  then show ?thesis
    using sendMessage_noop [where userMessage = "[]" and st = "initial (store [])"]
      sendMessage_noop [where userMessage = "lit ''   ''" and st = "initial (store [])"]
      sendMessage_noop [where userMessage = "lit ''hello''" and st = "(initial (store []))\<lparr>isLoading := True\<rparr>"]
    by simp
qed


text \<open>
  C3: when the text is not only white space and no request is in flight, \<^verbatim>\<open>sendMessage\<close>
  appends the user message with the trimmed text and issues a request; when the response
  then has a 2xx status and a JSON object with an \<^verbatim>\<open>answer\<close> and a \<^verbatim>\<open>source\<close> as body, exactly
  one message of the assistant follows the user message, with that answer as content and
  that source as source. Whatever happened to the state in between, the settling appends
  that one message at the end.
\<close>

theorem sendMessage_success:
  assumes "\<not> list_all isWhiteSpace userMessage" and "\<not> isLoading st"
    and "ok status" and "JSON_parse P text = Some (JObj ps)"
    and "map_of ps (lit ''answer'') = Some answer" and "map_of ps (lit ''source'') = Some source"
  shows "fst (sendMessage_begin P apiUrl st userMessage r0) =
           st\<lparr>messages := messages st @ [userMsg r0 userMessage], input := [], isLoading := True\<rparr> \<and>
         snd (sendMessage_begin P apiUrl st userMessage r0) \<noteq> None \<and>
         messages (sendMessage P apiUrl st userMessage r0 (Response status text) r r') =
           messages st @ [userMsg r0 userMessage, botMsg r (J answer) (J source)] \<and>
         (\<forall>st'. messages (sendMessage_settle P st' (Response status text) r r') =
            messages st' @ [botMsg r (J answer) (J source)]) \<and>
         get_prop (userMsg r0 userMessage) (lit ''role'') = J (JStr (lit ''user'')) \<and>
         get_prop (userMsg r0 userMessage) (lit ''content'') = J (JStr (trim userMessage)) \<and>
         get_prop (botMsg r (J answer) (J source)) (lit ''role'') = J (JStr (lit ''bot'')) \<and>
         get_prop (botMsg r (J answer) (J source)) (lit ''content'') = J answer \<and>
         get_prop (botMsg r (J answer) (J source)) (lit ''source'') = J source"
  using assms
  by (simp add: sendMessage_def sendMessage_begin_def sendMessage_settle_def response_try_def
      trim_Nil_iff get_prop_userMsg get_prop_botMsg)

theorem sendMessage_success_witness:
  "messages (sendMessage browser endpoint (initial (store [])) (lit '' hello '') reading0
      (Response 200 hi_WEB) reading1 reading1) =
     [userMsg reading0 (lit '' hello ''), botMsg reading1 (J (JStr (lit ''hi''))) (J (JStr (lit ''WEB'')))] \<and>
   get_prop (userMsg reading0 (lit '' hello '')) (lit ''content'') = J (JStr (lit ''hello'')) \<and>
   get_prop (botMsg reading1 (J (JStr (lit ''hi''))) (J (JStr (lit ''WEB'')))) (lit ''content'') =
     J (JStr (lit ''hi'')) \<and>
   get_prop (botMsg reading1 (J (JStr (lit ''hi''))) (J (JStr (lit ''WEB'')))) (lit ''source'') =
     J (JStr (lit ''WEB''))"
proof -
  have 1: "\<not> list_all isWhiteSpace (lit '' hello '')"
    by code_simp
  have 2: "\<not> isLoading (initial (store []))"
    by (simp add: initial_def)
  have 3: "ok 200"
    by (simp add: ok_def)
  have 4: "JSON_parse browser hi_WEB =
      Some (JObj [(lit ''answer'', JStr (lit ''hi'')), (lit ''source'', JStr (lit ''WEB''))])"
    by code_simp
  have 5: "map_of [(lit ''answer'', JStr (lit ''hi'')), (lit ''source'', JStr (lit ''WEB''))] (lit ''answer'')
      = Some (JStr (lit ''hi''))"
    by code_simp
  have 6: "map_of [(lit ''answer'', JStr (lit ''hi'')), (lit ''source'', JStr (lit ''WEB''))] (lit ''source'')
      = Some (JStr (lit ''WEB''))"
    by code_simp
  have 7: "trim (lit '' hello '') = lit ''hello''"
    by code_simp
  show ?thesis
    using sendMessage_success [OF 1 2 3 4 5 6, of endpoint reading0 reading1 reading1] 7
    by (simp add: initial_def)
qed

text \<open>
  C1, as stated, fails: a 2xx response whose JSON body is an object without an
  \<^verbatim>\<open>answer\<close> is not treated as a failure. The message appended has \<^verbatim>\<open>undefined\<close> as
  content and the source of the response.
\<close>

theorem settle_without_answer_counterexample:
  "ok 200 \<and>
   JSON_parse browser source_only = Some (JObj [(lit ''source'', JStr (lit ''WEB''))]) \<and>
   messages (sendMessage_settle browser pending (Response 200 source_only) reading1 reading1) =
     messages pending @ [botMsg reading1 Undefined (J (JStr (lit ''WEB'')))] \<and>
   get_prop (botMsg reading1 Undefined (J (JStr (lit ''WEB'')))) (lit ''content'') \<noteq> J (JStr apology) \<and>
   get_prop (botMsg reading1 Undefined (J (JStr (lit ''WEB'')))) (lit ''source'') \<noteq> Undefined"
proof -
  have p: "JSON_parse browser source_only = Some (JObj [(lit ''source'', JStr (lit ''WEB''))])"
    by code_simp
  have a: "get_member (JObj [(lit ''source'', JStr (lit ''WEB''))]) ''answer'' = Inr Undefined"
    by code_simp
  have s: "get_member (JObj [(lit ''source'', JStr (lit ''WEB''))]) ''source'' = Inr (J (JStr (lit ''WEB'')))"
    by code_simp
  show ?thesis
    using a s
    by (simp add: p ok_def sendMessage_settle_def response_try_def get_prop_botMsg
        del: get_member.simps)
qed

text \<open>
  C1, amended: when the \<^verbatim>\<open>fetch\<close> is rejected, or the status is not 2xx, or the body is not
  JSON, or the body is the JSON \<^verbatim>\<open>null\<close>, exactly one message of the assistant is appended,
  with the fixed apology as content and no source, and the loading flag is reset.
\<close>

theorem settle_failure:
  assumes "case outcome of
             Rejected \<Rightarrow> True
           | Response status text \<Rightarrow>
               \<not> ok status \<or> JSON_parse P text = None \<or> JSON_parse P text = Some JNull"
  shows "sendMessage_settle P st outcome r r' =
           st\<lparr>messages := messages st @ [errorMsg r'], isLoading := False\<rparr> \<and>
         get_prop (errorMsg r') (lit ''role'') = J (JStr (lit ''bot'')) \<and>
         get_prop (errorMsg r') (lit ''content'') = J (JStr apology) \<and>
         get_prop (errorMsg r') (lit ''source'') = Undefined"
  using assms
  by (auto simp: sendMessage_settle_def response_try_def get_prop_errorMsg
      split: fetch_outcome.splits)

theorem settle_failure_witness:
  "messages (sendMessage_settle browser pending Rejected reading1 reading1) =
     messages pending @ [errorMsg reading1] \<and>
   messages (sendMessage_settle browser pending (Response 500 hi_WEB) reading1 reading1) =
     messages pending @ [errorMsg reading1] \<and>
   messages (sendMessage_settle browser pending (Response 200 (lit ''<html>Bad gateway</html>'')) reading1 reading1) =
     messages pending @ [errorMsg reading1] \<and>
   messages (sendMessage_settle browser pending (Response 200 (lit ''null'')) reading1 reading1) =
     messages pending @ [errorMsg reading1]"
proof -
  have 1: "\<not> ok 500"
    by (simp add: ok_def)
  have 2: "JSON_parse browser (lit ''<html>Bad gateway</html>'') = None"
    by code_simp
  have 3: "JSON_parse browser (lit ''null'') = Some JNull"
    by code_simp
  show ?thesis
    using settle_failure [where outcome = Rejected and P = browser and st = pending and r' = reading1]
      settle_failure [where outcome = "Response 500 hi_WEB" and P = browser and st = pending and r' = reading1]
      settle_failure [where outcome = "Response 200 (lit ''<html>Bad gateway</html>'')" and P = browser
        and st = pending and r' = reading1]
      settle_failure [where outcome = "Response 200 (lit ''null'')" and P = browser and st = pending
        and r' = reading1]
      1 2 3
    by simp
qed

text \<open>
  Every other response is taken as a success: the answer and the source are read from the
  body as they are.
\<close>

lemma settle_not_failure:
  assumes "ok status" and "JSON_parse P text = Some data" and "data \<noteq> JNull"
  shows "\<exists>answer source.
           get_member data ''answer'' = Inr answer \<and> get_member data ''source'' = Inr source \<and>
           sendMessage_settle P st (Response status text) r r' =
             st\<lparr>messages := messages st @ [botMsg r answer source], isLoading := False\<rparr>"
  using assms by (cases data) (simp_all add: sendMessage_settle_def response_try_def)

section \<open>Properties of what is rendered\<close>

text \<open>
  C9, as stated, fails: on the empty session the component shows three suggestions, not
  four.
\<close>

theorem suggestions_counterexample:
  "length (messages (initial (store []))) = 0 \<and> length (suggestions (render (initial (store [])))) \<noteq> 4"
  by (simp add: initial_def render_def SUGGESTIONS_def)

text \<open>
  C9, amended: the suggestions are shown when and only when the session is empty and no
  request is in flight; there are three of them, and the handler of each calls
  \<^verbatim>\<open>sendMessage\<close> with its own text.
\<close>

theorem suggestions_shown:
  "(suggestions (render st) \<noteq> [] \<longleftrightarrow> messages st = [] \<and> \<not> isLoading st) \<and>
   (messages st = [] \<and> \<not> isLoading st \<longrightarrow>
      length (suggestions (render st)) = 3 \<and>
      (\<forall>(label, onClick) \<in> set (suggestions (render st)).
         perform P apiUrl st onClick r = sendMessage_begin P apiUrl st label r))"
  by (auto simp: render_def SUGGESTIONS_def)

theorem suggestions_shown_witness:
  "suggestions (render (initial (store []))) \<noteq> [] \<and>
   length (suggestions (render (initial (store [])))) = 3 \<and>
   perform browser endpoint (initial (store []))
       (snd (hd (suggestions (render (initial (store [])))))) reading0 =
     sendMessage_begin browser endpoint (initial (store []))
       (fst (hd (suggestions (render (initial (store [])))))) reading0"
proof -
  let ?I = "initial (store [])"
  have e: "messages ?I = [] \<and> \<not> isLoading ?I"
    by (simp add: initial_def)
  from suggestions_shown [of ?I browser endpoint reading0] e
  have s: "suggestions (render ?I) \<noteq> []" and l: "length (suggestions (render ?I)) = 3"
    and b: "\<forall>x \<in> set (suggestions (render ?I)).
              perform browser endpoint ?I (snd x) reading0 = sendMessage_begin browser endpoint ?I (fst x) reading0"
    by (simp_all add: case_prod_beta)
  from s have "hd (suggestions (render ?I)) \<in> set (suggestions (render ?I))"
    by simp
  with b s l show ?thesis
    by blast
qed

section \<open>Properties of the message sequence\<close>

lemma messages_persist_effect [simp]: "messages (persist_effect P st) = messages st"
  by (simp add: persist_effect_def split: option.splits)

lemma messages_step:
  "messages (step P apiUrl st ev) = (if ev = Clear then [] else messages st @ created_by P st ev)"
  by (cases ev)
    (auto simp: sendMessage_begin_def sendMessage_settle_def clearHistory_def split: sum.splits)

lemma suffix_run:
  "suffix (messages (run P apiUrl st evs)) (messages st @ created P apiUrl st evs)"
proof (induction evs arbitrary: st)
  case Nil
  show ?case by simp
next
  case (Cons ev evs)
  have "suffix (messages (run P apiUrl (step P apiUrl st ev) evs))
          (messages (step P apiUrl st ev) @ created P apiUrl (step P apiUrl st ev) evs)"
    by (rule Cons.IH)
  also have "suffix (messages (step P apiUrl st ev) @ created P apiUrl (step P apiUrl st ev) evs)
          (messages st @ created P apiUrl st (ev # evs))"
    by (cases "ev = Clear") (simp_all add: messages_step suffix_def clearHistory_def)
  finally show ?case by simp
qed

text \<open>
  C7: every event either appends the messages it creates at the end of the sequence or,
  for the clearing of the history, empties the sequence; so after any sequence of events
  the messages are a suffix of the log of all created messages, in the order of their
  creation: no entry is removed alone and none is moved. Hydration, which runs once on
  the empty sequence of the first render, appends what it loaded.
\<close>

theorem append_or_clear:
  "(messages (step P apiUrl st ev) = messages st @ created_by P st ev \<or>
      ev = Clear \<and> messages (step P apiUrl st ev) = []) \<and>
   suffix (messages (run P apiUrl st evs)) (messages st @ created P apiUrl st evs) \<and>
   messages (hydrate_effect P (initial ls)) =
     messages (initial ls) @ loadMessagesFromStorage P (Some ls)"
  by (simp add: messages_step suffix_run hydrate_effect_def initial_def)

text \<open>
  Every message that an event creates is of the shape that the round trip through the
  storage asks for, so the messages of a run that started with such messages are.
\<close>

lemma get_member_not_Date: "get_member v k = Inr f \<Longrightarrow> \<not> is_Date f"
  by (cases v) (auto split: option.splits)

lemma storable_response_try: "response_try P outcome r = Inr m \<Longrightarrow> storable m"
  by (auto simp: response_try_def storable_created get_member_not_Date
      split: fetch_outcome.splits if_splits option.splits sum.splits)

lemma storable_created_by: "m \<in> set (created_by P st ev) \<Longrightarrow> storable m"
  by (cases ev) (auto simp: storable_created storable_response_try split: sum.splits if_splits)

lemma storable_step:
  assumes "list_all storable (messages st)"
  shows "list_all storable (messages (step P apiUrl st ev))"
  using assms storable_created_by [of _ P st ev]
  by (auto simp: messages_step list_all_iff)

lemma storable_run:
  "list_all storable (messages st) \<Longrightarrow> list_all storable (messages (run P apiUrl st evs))"
  by (induction evs arbitrary: st) (simp_all add: storable_step)

section \<open>Single flight\<close>

text \<open>
  From an idle state, at most one request is in flight after any sequence of events: the
  loading flag is set exactly while one is.
\<close>

lemma isLoading_persist_effect [simp]: "isLoading (persist_effect P st) = isLoading st"
  by (simp add: persist_effect_def split: option.splits)

lemma in_flight_step:
  assumes "n = (if isLoading st then 1 else 0)" and "in_flight P apiUrl st n (ev # evs) = Some k"
  shows "in_flight P apiUrl (step P apiUrl st ev)
           (if isLoading (step P apiUrl st ev) then 1 else 0) evs = Some k"
  using assms
  by (cases ev)
    (auto simp: sendMessage_begin_def sendMessage_settle_def clearHistory_def
      split: if_splits sum.splits)

lemma in_flight_loading:
  assumes "n = (if isLoading st then 1 else 0)" and "in_flight P apiUrl st n evs = Some k"
  shows "k = (if isLoading (run P apiUrl st evs) then 1 else 0)"
  using assms
proof (induction evs arbitrary: st n)
  case Nil
  then show ?case by simp
next
  case (Cons ev evs)
  have "in_flight P apiUrl (step P apiUrl st ev)
          (if isLoading (step P apiUrl st ev) then 1 else 0) evs = Some k"
    using Cons.prems by (rule in_flight_step)
  then have "k = (if isLoading (run P apiUrl (step P apiUrl st ev) evs) then 1 else 0)"
    by (rule Cons.IH [OF refl])
  then show ?case by simp
qed

lemma single_flight:
  assumes "\<not> isLoading st" and "in_flight P apiUrl st 0 evs = Some k"
  shows "k \<le> 1"
  using in_flight_loading [OF _ assms(2)] assms(1) by simp

section \<open>Properties of the code block\<close>

lemma map_append_Nil: "map ((@) []) xs = xs"
  by (induction xs) simp_all

lemma join_empty: "join [] xs = concat xs"
  by (cases xs) (simp_all add: join_def map_append_Nil)

lemma String_element_Text: "map (String_element \<circ> Text) ss = ss"
  by (induction ss) simp_all

lemma innerText_Text: "map (innerText \<circ> Text) ss = ss"
  by (induction ss) simp_all

lemma copy_button_of_text:
  "shouldShowCopyButton (Text s) \<longleftrightarrow> length (trim (innerText (Text s))) > 50"
  "shouldShowCopyButton (Array (map Text ss)) \<longleftrightarrow> length (trim (innerText (Array (map Text ss)))) > 50"
  by (simp_all add: shouldShowCopyButton_def childString_def join_empty String_element_Text
      innerText_Text)

text \<open>The two blocks of the specification, as text children.\<close>

lemma copy_button_of_40_and_60:
  "length forty = 40" "length sixty = 60"
  "code (Some (lit ''language-sql'')) (Text forty) = CopyableCodeBlock False (Text forty)"
  "code (Some (lit ''language-sql'')) (Text sixty) = CopyableCodeBlock True (Text sixty)"
  by code_simp+
text \<open>
  C8 fails on the code: the length that decides the copy button is that of
  \<^verbatim>\<open>String(children)\<close>, in which every element counts as \<^verbatim>\<open>[object Object]\<close>. A highlighted
  line of 12 code units in six children shows the button, and a line of 60 code units
  wrapped in one element does not. For children that are texts the claim holds
  (\<open>copy_button_of_text\<close>).
\<close>

theorem copy_button_counts_elements:
  "code (Some (lit ''language-js'')) highlighted = CopyableCodeBlock True highlighted \<and>
   length (trim (innerText highlighted)) = 12 \<and>
   code (Some (lit ''language-sql'')) code_line = CopyableCodeBlock False code_line \<and>
   length (trim (innerText code_line)) = 60"
  by code_simp

end
